theory Spec2Isabelle
  imports Complex_Main "HOL-Library.Sublist"
begin

section \<open>The configuration module \<open>config.py\<close>\<close>

text \<open>
  \<open>config.py\<close> is straight-line code at module top level: four import statements,
  fourteen assignments and one expression statement, three of which call code outside
  the module (the MATLAB engine, twice, and \<open>utils.get_class_name_dict\<close>). The
  docstring of lines 1 to 3 has no effect of its own. Loading the module means running
  this body once, on an empty module namespace. The model runs the body statement by
  statement on an explicit state: the namespace under construction, the external
  world, and a record of what has been done so far.
\<close>

subsection \<open>Values, exceptions, events\<close>

text \<open>
  The module namespace, restricted to the names the body assigns. A name is unbound
  (\<open>None\<close>) until its assignment has run. Each name is assigned once, from an
  expression of one type, so every field carries that type: strings for the paths,
  Python's unbounded integers as \<open>int\<close>, the engine handle \<open>'h\<close> and the value \<open>'d\<close>
  returned by \<open>get_class_name_dict\<close>. The only float, \<open>frame_length\<close>, is held as the
  exact rational value of its IEEE double. The names bound by the \<open>import\<close> statements
  are not fields: what they are bound to is the environment below.
\<close>

record ('h, 'd) namespace =
  data_folder_path :: "string option"
  stft_folder_path :: "string option"
  csv_file_path :: "string option"
  matlab_path :: "string option"
  eng :: "'h option"
  this_file_path :: "string option"
  fs :: "int option"
  window_size :: "int option"
  window_overlap :: "int option"
  nfft :: "int option"
  frame_length :: "rat option"
  num_classes :: "int option"
  undefined_classID :: "int option"
  class_name_dict :: "'d option"

definition empty_namespace :: "('h, 'd) namespace" where
  "empty_namespace =
     \<lparr>data_folder_path = None, stft_folder_path = None, csv_file_path = None,
      matlab_path = None, eng = None, this_file_path = None, fs = None,
      window_size = None, window_overlap = None, nfft = None, frame_length = None,
      num_classes = None, undefined_classID = None, class_name_dict = None\<rparr>"

text \<open>
  An exception is either Python's own \<open>NameError\<close> (reading an unbound name) or
  whatever an external call raised, kept as it is.
\<close>

datatype 'e exn = NameError string | Raised 'e

text \<open>
  What the body does, in the order it does it: imports, bindings and external calls.
\<close>

datatype 'h event =
    Import string
  | Assign string
  | Call_start_matlab
  | Call_abspath string
  | Call_dirname string
  | Call_addpath 'h string
  | Call_get_class_name_dict

subsection \<open>The environment: the imports and what they bind\<close>

text \<open>
  An import statement runs code outside the module: it either raises (the module is
  not installed, it lacks the imported name, its own body fails) or returns, and it may
  change the world. \<open>py_import\<close> gives this outcome for each of the four statements,
  named by what they import: \<open>os\<close>, \<open>matlab.engine\<close>, \<open>numpy\<close> and
  \<open>utils.get_class_name_dict\<close>. The other fields are what the imported names stand for
  once the imports have returned.

  \<open>from matlab import engine\<close>: \<open>engine.start_matlab()\<close> either raises or returns a
  session handle, and changes the world (a new process); \<open>eng.addpath(p)\<close> either
  raises or returns (its result is dropped by the expression statement).
  \<open>import os\<close>: \<open>os.path.abspath\<close> and \<open>os.path.dirname\<close> are taken as total
  string functions, applied to the module's \<open>__file__\<close>.
\<close>

text \<open>
  Modelled from the spec: \<open>utils.get_class_name_dict\<close> belongs to the repository but
  is not among its source files. The specification gives its contract: it supplies the
  fixed label vocabulary, is stable across calls within a process lifetime, and may
  fail with an error of its own. Its outcome is therefore one fixed value of the
  environment: an exception or the returned mapping. Nothing is assumed about the
  mapping's keys.
\<close>

record ('h, 'd, 'e, 'w) env =
  py_import :: "string \<Rightarrow> 'w \<Rightarrow> ('e + unit) \<times> 'w"
  start_matlab :: "'w \<Rightarrow> ('e + 'h) \<times> 'w"
  addpath :: "'h \<Rightarrow> string \<Rightarrow> 'w \<Rightarrow> ('e + unit) \<times> 'w"
  module_file :: string
  abspath :: "string \<Rightarrow> string"
  dirname :: "string \<Rightarrow> string"
  get_class_name_dict :: "'e + 'd"

subsection \<open>Execution state and statements\<close>

record ('h, 'd, 'w) state =
  globals :: "('h, 'd) namespace"
  trace :: "'h event list"
  world :: 'w

type_synonym ('h, 'd, 'e, 'w) stmt =
  "('h, 'd, 'w) state \<Rightarrow> 'e exn option \<times> ('h, 'd, 'w) state"

definition emit :: "'h event \<Rightarrow> ('h, 'd, 'w) state \<Rightarrow> ('h, 'd, 'w) state" where
  "emit ev s = s\<lparr>trace := trace s @ [ev]\<rparr>"

text \<open>\<open>x = v\<close>: bind the name, never fails.\<close>

definition assign ::
  "string \<Rightarrow> (('h, 'd) namespace \<Rightarrow> ('h, 'd) namespace) \<Rightarrow> ('h, 'd, 'e, 'w) stmt" where
  "assign x bind s = (None, emit (Assign x) (s\<lparr>globals := bind (globals s)\<rparr>))"

text \<open>Reading a name: \<open>NameError\<close> when it is unbound.\<close>

definition name :: "string \<Rightarrow> 'a option \<Rightarrow> 'e exn + 'a" where
  "name x v = (case v of None \<Rightarrow> Inl (NameError x) | Some a \<Rightarrow> Inr a)"

text \<open>
  Lines 5 to 8: \<open>import os\<close>, \<open>from matlab import engine\<close>, \<open>import numpy as np\<close> and
  \<open>from utils import get_class_name_dict\<close>. Each is one call of \<open>stmt_import\<close>; an
  import that raises ends the run like any other exception.
\<close>

definition stmt_import :: "string \<Rightarrow> ('h, 'd, 'e, 'w) env \<Rightarrow> ('h, 'd, 'e, 'w) stmt" where
  "stmt_import m env s =
     (case py_import env m (world s) of
        (r, w') \<Rightarrow>
          (let s' = emit (Import m) (s\<lparr>world := w'\<rparr>)
           in case r of
                Inl e \<Rightarrow> (Some (Raised e), s')
              | Inr u \<Rightarrow> (None, s')))"

text \<open>Lines 12 to 15: the four path literals.\<close>

definition stmt_data_folder_path :: "('h, 'd, 'e, 'w) stmt" where
  "stmt_data_folder_path =
     assign ''data_folder_path''
       (\<lambda>g. g\<lparr>data_folder_path := Some ''/home/pans/datasets/DCASE2021/foa_dev/dev-train''\<rparr>)"

definition stmt_stft_folder_path :: "('h, 'd, 'e, 'w) stmt" where
  "stmt_stft_folder_path =
     assign ''stft_folder_path''
       (\<lambda>g. g\<lparr>stft_folder_path := Some ''/home/pans/datasets/DCASE2021/stft_foa_dev/dev-train''\<rparr>)"

definition stmt_csv_file_path :: "('h, 'd, 'e, 'w) stmt" where
  "stmt_csv_file_path =
     assign ''csv_file_path''
       (\<lambda>g. g\<lparr>csv_file_path := Some ''/home/pans/datasets/DCASE2021/metadata_dev/dev-train''\<rparr>)"

definition stmt_matlab_path :: "('h, 'd, 'e, 'w) stmt" where
  "stmt_matlab_path =
     assign ''matlab_path''
       (\<lambda>g. g\<lparr>matlab_path := Some ''/home/pans/source/DCASE2021/multiple-target-tracking-master''\<rparr>)"

text \<open>Line 18: \<open>eng = engine.start_matlab()\<close>. The name is bound only if the call returns.\<close>

definition stmt_eng :: "('h, 'd, 'e, 'w) env \<Rightarrow> ('h, 'd, 'e, 'w) stmt" where
  "stmt_eng env s =
     (case start_matlab env (world s) of
        (r, w') \<Rightarrow>
          (let s' = emit Call_start_matlab (s\<lparr>world := w'\<rparr>)
           in case r of
                Inl e \<Rightarrow> (Some (Raised e), s')
              | Inr h \<Rightarrow> assign ''eng'' (\<lambda>g. g\<lparr>eng := Some h\<rparr>) s'))"

text \<open>Line 19: \<open>this_file_path = os.path.dirname(os.path.abspath(__file__))\<close>.\<close>

definition stmt_this_file_path :: "('h, 'd, 'e, 'w) env \<Rightarrow> ('h, 'd, 'e, 'w) stmt" where
  "stmt_this_file_path env s =
     (let a = abspath env (module_file env);
          s1 = emit (Call_abspath (module_file env)) s;
          d = dirname env a;
          s2 = emit (Call_dirname a) s1
      in assign ''this_file_path'' (\<lambda>g. g\<lparr>this_file_path := Some d\<rparr>) s2)"

text \<open>
  Line 20: \<open>eng.addpath(matlab_path)\<close>. Python reads \<open>eng\<close>, then the argument
  \<open>matlab_path\<close>, then calls; nothing is bound.
\<close>

definition stmt_addpath :: "('h, 'd, 'e, 'w) env \<Rightarrow> ('h, 'd, 'e, 'w) stmt" where
  "stmt_addpath env s =
     (case name ''eng'' (eng (globals s)) of
        Inl x \<Rightarrow> (Some x, s)
      | Inr h \<Rightarrow>
          (case name ''matlab_path'' (matlab_path (globals s)) of
             Inl x \<Rightarrow> (Some x, s)
           | Inr p \<Rightarrow>
               (case addpath env h p (world s) of
                  (r, w') \<Rightarrow>
                    (let s' = emit (Call_addpath h p) (s\<lparr>world := w'\<rparr>)
                     in case r of
                          Inl e \<Rightarrow> (Some (Raised e), s')
                        | Inr u \<Rightarrow> (None, s')))))"

text \<open>
  Lines 23 to 27: the audio analysis parameters. The literal \<open>0.1\<close> denotes the IEEE
  double nearest to one tenth, \<open>3602879701896397 / 2 ^ 55\<close>; a later comparison
  \<open>frame_length == 0.1\<close> compares with that same double.
\<close>

definition double_0_1 :: rat where
  "double_0_1 = 3602879701896397 / 36028797018963968"

definition stmt_fs :: "('h, 'd, 'e, 'w) stmt" where
  "stmt_fs = assign ''fs'' (\<lambda>g. g\<lparr>fs := Some 24000\<rparr>)"

definition stmt_window_size :: "('h, 'd, 'e, 'w) stmt" where
  "stmt_window_size = assign ''window_size'' (\<lambda>g. g\<lparr>window_size := Some 2400\<rparr>)"

definition stmt_window_overlap :: "('h, 'd, 'e, 'w) stmt" where
  "stmt_window_overlap = assign ''window_overlap'' (\<lambda>g. g\<lparr>window_overlap := Some 1200\<rparr>)"

definition stmt_nfft :: "('h, 'd, 'e, 'w) stmt" where
  "stmt_nfft = assign ''nfft'' (\<lambda>g. g\<lparr>nfft := Some 2400\<rparr>)"

definition stmt_frame_length :: "('h, 'd, 'e, 'w) stmt" where
  "stmt_frame_length = assign ''frame_length'' (\<lambda>g. g\<lparr>frame_length := Some double_0_1\<rparr>)"

text \<open>Lines 29 and 30: \<open>num_classes = 13\<close> and \<open>undefined_classID = num_classes - 1\<close>.\<close>

definition stmt_num_classes :: "('h, 'd, 'e, 'w) stmt" where
  "stmt_num_classes = assign ''num_classes'' (\<lambda>g. g\<lparr>num_classes := Some 13\<rparr>)"

definition stmt_undefined_classID :: "('h, 'd, 'e, 'w) stmt" where
  "stmt_undefined_classID s =
     (case name ''num_classes'' (num_classes (globals s)) of
        Inl x \<Rightarrow> (Some x, s)
      | Inr n \<Rightarrow> assign ''undefined_classID'' (\<lambda>g. g\<lparr>undefined_classID := Some (n - 1)\<rparr>) s)"

text \<open>Line 32: \<open>class_name_dict = get_class_name_dict()\<close>.\<close>

definition stmt_class_name_dict :: "('h, 'd, 'e, 'w) env \<Rightarrow> ('h, 'd, 'e, 'w) stmt" where
  "stmt_class_name_dict env s =
     (let s' = emit Call_get_class_name_dict s
      in case get_class_name_dict env of
           Inl e \<Rightarrow> (Some (Raised e), s')
         | Inr d \<Rightarrow> assign ''class_name_dict'' (\<lambda>g. g\<lparr>class_name_dict := Some d\<rparr>) s')"

subsection \<open>The module body and loading\<close>

text \<open>Statements run in order; the first exception ends the run.\<close>

fun exec :: "('h, 'd, 'e, 'w) stmt list \<Rightarrow> ('h, 'd, 'e, 'w) stmt" where
  "exec [] s = (None, s)"
| "exec (c # cs) s =
     (case c s of
        (Some x, s') \<Rightarrow> (Some x, s')
      | (None, s') \<Rightarrow> exec cs s')"

definition config_body :: "('h, 'd, 'e, 'w) env \<Rightarrow> ('h, 'd, 'e, 'w) stmt list" where
  "config_body env =
     [stmt_import ''os'' env, stmt_import ''matlab.engine'' env,
      stmt_import ''numpy'' env, stmt_import ''utils.get_class_name_dict'' env,
      stmt_data_folder_path, stmt_stft_folder_path, stmt_csv_file_path, stmt_matlab_path,
      stmt_eng env, stmt_this_file_path env, stmt_addpath env,
      stmt_fs, stmt_window_size, stmt_window_overlap, stmt_nfft, stmt_frame_length,
      stmt_num_classes, stmt_undefined_classID,
      stmt_class_name_dict env]"

definition exec_module ::
  "('h, 'd, 'e, 'w) env \<Rightarrow> 'w \<Rightarrow> 'e exn option \<times> ('h, 'd, 'w) state" where
  "exec_module env w =
     exec (config_body env) \<lparr>globals = empty_namespace, trace = [], world = w\<rparr>"

text \<open>
  What the importer gets. Python's import system drops the module object when its
  body raises and hands the exception to the importer; only a body that ran to its end
  leaves a module whose names can be read.
\<close>

definition load ::
  "('h, 'd, 'e, 'w) env \<Rightarrow> 'w \<Rightarrow> 'e exn + ('h, 'd) namespace" where
  "load env w =
     (case exec_module env w of
        (Some x, s) \<Rightarrow> Inl x
      | (None, s) \<Rightarrow> Inr (globals s))"

definition events :: "('h, 'd, 'e, 'w) env \<Rightarrow> 'w \<Rightarrow> 'h event list" where
  "events env w = trace (snd (exec_module env w))"

definition world_after :: "('h, 'd, 'e, 'w) env \<Rightarrow> 'w \<Rightarrow> 'w" where
  "world_after env w = world (snd (exec_module env w))"

subsection \<open>Reference values\<close>

text \<open>
  The namespace once the four path assignments have run, the namespace a completed body
  leaves (for an engine handle \<open>h\<close>, a module directory \<open>p\<close> and a returned mapping \<open>d\<close>),
  and the complete sequence of imports, bindings and calls, in source order.
\<close>

definition paths_bound :: "('h, 'd) namespace" where
  "paths_bound =
     \<lparr>data_folder_path = Some ''/home/pans/datasets/DCASE2021/foa_dev/dev-train'',
      stft_folder_path = Some ''/home/pans/datasets/DCASE2021/stft_foa_dev/dev-train'',
      csv_file_path = Some ''/home/pans/datasets/DCASE2021/metadata_dev/dev-train'',
      matlab_path = Some ''/home/pans/source/DCASE2021/multiple-target-tracking-master'',
      eng = None, this_file_path = None, fs = None,
      window_size = None, window_overlap = None, nfft = None, frame_length = None,
      num_classes = None, undefined_classID = None, class_name_dict = None\<rparr>"

definition loaded :: "'h \<Rightarrow> string \<Rightarrow> 'd \<Rightarrow> ('h, 'd) namespace" where
  "loaded h p d =
     \<lparr>data_folder_path = Some ''/home/pans/datasets/DCASE2021/foa_dev/dev-train'',
      stft_folder_path = Some ''/home/pans/datasets/DCASE2021/stft_foa_dev/dev-train'',
      csv_file_path = Some ''/home/pans/datasets/DCASE2021/metadata_dev/dev-train'',
      matlab_path = Some ''/home/pans/source/DCASE2021/multiple-target-tracking-master'',
      eng = Some h, this_file_path = Some p, fs = Some 24000,
      window_size = Some 2400, window_overlap = Some 1200, nfft = Some 2400,
      frame_length = Some double_0_1,
      num_classes = Some 13, undefined_classID = Some 12, class_name_dict = Some d\<rparr>"

definition module_order :: "('h, 'd, 'e, 'w) env \<Rightarrow> 'h \<Rightarrow> 'h event list" where
  "module_order env h =
     [Import ''os'', Import ''matlab.engine'', Import ''numpy'',
      Import ''utils.get_class_name_dict'',
      Assign ''data_folder_path'', Assign ''stft_folder_path'', Assign ''csv_file_path'',
      Assign ''matlab_path'',
      Call_start_matlab, Assign ''eng'',
      Call_abspath (module_file env), Call_dirname (abspath env (module_file env)),
      Assign ''this_file_path'',
      Call_addpath h ''/home/pans/source/DCASE2021/multiple-target-tracking-master'',
      Assign ''fs'', Assign ''window_size'', Assign ''window_overlap'', Assign ''nfft'',
      Assign ''frame_length'',
      Assign ''num_classes'', Assign ''undefined_classID'',
      Call_get_class_name_dict, Assign ''class_name_dict'']"

text \<open>
  What a reader of the loaded module compares between two loads: the four paths, the
  signal constants and the label scheme. The engine handle is a session of its own
  in each load and is left out, as is \<open>this_file_path\<close>.
\<close>

definition observable ::
  "('h, 'd) namespace \<Rightarrow>
   string option \<times> string option \<times> string option \<times> string option \<times>
   int option \<times> int option \<times> int option \<times> int option \<times> rat option \<times>
   int option \<times> int option \<times> 'd option" where
  "observable g =
     (data_folder_path g, stft_folder_path g, csv_file_path g, matlab_path g,
      fs g, window_size g, window_overlap g, nfft g, frame_length g,
      num_classes g, undefined_classID g, class_name_dict g)"

subsection \<open>Example environments\<close>

text \<open>
  Concrete environments on which the model is evaluated. Sessions are numbered: the
  world is the number of sessions started so far, and a new session's handle is that
  number. The mapping is a Python \<open>dict\<close> from class index to class name;
  \<open>example_names\<close> has the thirteen indices \<open>0 .. 12\<close>, \<open>ten_names\<close> only \<open>0 .. 9\<close>.
\<close>

definition example_names :: "int \<rightharpoonup> string" where
  "example_names =
     [0 \<mapsto> ''alarm'', 1 \<mapsto> ''crying_baby'', 2 \<mapsto> ''crash'', 3 \<mapsto> ''barking_dog'',
      4 \<mapsto> ''female_scream'', 5 \<mapsto> ''female_speech'', 6 \<mapsto> ''footsteps'',
      7 \<mapsto> ''knocking_on_door'', 8 \<mapsto> ''male_scream'', 9 \<mapsto> ''male_speech'',
      10 \<mapsto> ''ringing_phone'', 11 \<mapsto> ''piano'', 12 \<mapsto> ''undefined'']"

definition ten_names :: "int \<rightharpoonup> string" where
  "ten_names =
     [0 \<mapsto> ''alarm'', 1 \<mapsto> ''crying_baby'', 2 \<mapsto> ''crash'', 3 \<mapsto> ''barking_dog'',
      4 \<mapsto> ''female_scream'', 5 \<mapsto> ''female_speech'', 6 \<mapsto> ''footsteps'',
      7 \<mapsto> ''knocking_on_door'', 8 \<mapsto> ''male_scream'', 9 \<mapsto> ''male_speech'']"

definition example_dirname :: "string \<Rightarrow> string" where
  "example_dirname p = rev (tl (dropWhile (\<lambda>c. c \<noteq> CHR ''/'') (rev p)))"

definition example_env :: "(nat, int \<rightharpoonup> string, string, nat) env" where
  "example_env =
     \<lparr>py_import = (\<lambda>m w. (Inr (), w)),
      start_matlab = (\<lambda>w. (Inr w, Suc w)),
      addpath = (\<lambda>h p w. (Inr (), w)),
      module_file = ''/home/pans/source/DCASE2021/config.py'',
      abspath = (\<lambda>p. p),
      dirname = example_dirname,
      get_class_name_dict = Inr example_names\<rparr>"

text \<open>
  The MATLAB engine package is not installed; the engine cannot start; \<open>addpath\<close>
  raises; \<open>addpath\<close> returns and leaves its mark on the world; the collaborator returns
  ten names.
\<close>

definition env_no_matlab :: "(nat, int \<rightharpoonup> string, string, nat) env" where
  "env_no_matlab =
     example_env\<lparr>py_import :=
       (\<lambda>m w. if m = ''matlab.engine'' then (Inl ''ModuleNotFoundError'', w) else (Inr (), w))\<rparr>"

definition env_engine_down :: "(nat, int \<rightharpoonup> string, string, nat) env" where
  "env_engine_down = example_env\<lparr>start_matlab := (\<lambda>w. (Inl ''EngineError'', w))\<rparr>"

definition env_addpath_raises :: "(nat, int \<rightharpoonup> string, string, nat) env" where
  "env_addpath_raises =
     example_env\<lparr>addpath := (\<lambda>h p w. (Inl ''MatlabExecutionError'', w))\<rparr>"

definition env_addpath_marks :: "(nat, int \<rightharpoonup> string, string, nat) env" where
  "env_addpath_marks = example_env\<lparr>addpath := (\<lambda>h p w. (Inr (), w + 100))\<rparr>"

definition env_ten_names :: "(nat, int \<rightharpoonup> string, string, nat) env" where
  "env_ten_names = example_env\<lparr>get_class_name_dict := Inr ten_names\<rparr>"

text \<open>A state in which only \<open>num_classes\<close> is bound, to any integer.\<close>

definition state_with_num_classes :: "int \<Rightarrow> (nat, int \<rightharpoonup> string, nat) state" where
  "state_with_num_classes n =
     \<lparr>globals = empty_namespace\<lparr>num_classes := Some n\<rparr>, trace = [], world = 0\<rparr>"

section \<open>Running the body\<close>

lemmas stmt_defs =
  stmt_import_def
  stmt_data_folder_path_def stmt_stft_folder_path_def stmt_csv_file_path_def
  stmt_matlab_path_def stmt_eng_def stmt_this_file_path_def stmt_addpath_def
  stmt_fs_def stmt_window_size_def stmt_window_overlap_def stmt_nfft_def
  stmt_frame_length_def stmt_num_classes_def stmt_undefined_classID_def
  stmt_class_name_dict_def assign_def emit_def name_def Let_def

lemmas run_defs = exec_module_def config_body_def stmt_defs empty_namespace_def

text \<open>
  The literal \<open>0.1\<close>: the stored value is a double with a 53-bit significand, less
  than half a unit in the last place away from one tenth.
\<close>

lemma double_0_1_nearest:
  "\<bar>double_0_1 - 1 / 10\<bar> < 1 / 2 ^ 57 \<and> double_0_1 = 7205759403792794 / 2 ^ 56"
  by (simp add: double_0_1_def)

lemma count_list_take_le: "count_list (take k xs) a \<le> count_list xs a"
  by (induction xs arbitrary: k) (auto simp: take_Cons split: nat.splits)

text \<open>
  The body has eight ways to end, decided by the four imports and the three external
  calls in the order they are made. Each lemma gives the final state of the run.
\<close>

lemma exec_import_os_raises:
  assumes "py_import env ''os'' w = (Inl e, wa)"
  shows "exec_module env w =
    (Some (Raised e), \<lparr>globals = empty_namespace, trace = [Import ''os''], world = wa\<rparr>)"
  using assms by (simp add: run_defs)

lemma exec_import_engine_raises:
  assumes "py_import env ''os'' w = (Inr (), wa)"
    and "py_import env ''matlab.engine'' wa = (Inl e, wb)"
  shows "exec_module env w =
    (Some (Raised e),
     \<lparr>globals = empty_namespace, trace = [Import ''os'', Import ''matlab.engine''],
      world = wb\<rparr>)"
  using assms by (simp add: run_defs)

lemma exec_import_numpy_raises:
  assumes "py_import env ''os'' w = (Inr (), wa)"
    and "py_import env ''matlab.engine'' wa = (Inr (), wb)"
    and "py_import env ''numpy'' wb = (Inl e, wc)"
  shows "exec_module env w =
    (Some (Raised e),
     \<lparr>globals = empty_namespace,
      trace = [Import ''os'', Import ''matlab.engine'', Import ''numpy''],
      world = wc\<rparr>)"
  using assms by (simp add: run_defs)

lemma exec_import_utils_raises:
  assumes "py_import env ''os'' w = (Inr (), wa)"
    and "py_import env ''matlab.engine'' wa = (Inr (), wb)"
    and "py_import env ''numpy'' wb = (Inr (), wc)"
    and "py_import env ''utils.get_class_name_dict'' wc = (Inl e, wd)"
  shows "exec_module env w =
    (Some (Raised e),
     \<lparr>globals = empty_namespace,
      trace = [Import ''os'', Import ''matlab.engine'', Import ''numpy'',
               Import ''utils.get_class_name_dict''],
      world = wd\<rparr>)"
  using assms by (simp add: run_defs)

lemma exec_start_raises:
  assumes "py_import env ''os'' w = (Inr (), wa)"
    and "py_import env ''matlab.engine'' wa = (Inr (), wb)"
    and "py_import env ''numpy'' wb = (Inr (), wc)"
    and "py_import env ''utils.get_class_name_dict'' wc = (Inr (), wd)"
    and "start_matlab env wd = (Inl e, w1)"
  shows "exec_module env w =
    (Some (Raised e),
     \<lparr>globals = paths_bound,
      trace = [Import ''os'', Import ''matlab.engine'', Import ''numpy'',
               Import ''utils.get_class_name_dict'',
               Assign ''data_folder_path'', Assign ''stft_folder_path'',
               Assign ''csv_file_path'', Assign ''matlab_path'', Call_start_matlab],
      world = w1\<rparr>)"
  using assms by (simp add: run_defs paths_bound_def)

lemma exec_addpath_raises:
  assumes "py_import env ''os'' w = (Inr (), wa)"
    and "py_import env ''matlab.engine'' wa = (Inr (), wb)"
    and "py_import env ''numpy'' wb = (Inr (), wc)"
    and "py_import env ''utils.get_class_name_dict'' wc = (Inr (), wd)"
    and "start_matlab env wd = (Inr h, w1)"
    and "addpath env h ''/home/pans/source/DCASE2021/multiple-target-tracking-master'' w1
           = (Inl e, w2)"
  shows "exec_module env w =
    (Some (Raised e),
     \<lparr>globals = paths_bound\<lparr>eng := Some h,
         this_file_path := Some (dirname env (abspath env (module_file env)))\<rparr>,
      trace = take 14 (module_order env h), world = w2\<rparr>)"
  using assms by (simp add: run_defs paths_bound_def module_order_def)

lemma exec_collaborator_raises:
  assumes "py_import env ''os'' w = (Inr (), wa)"
    and "py_import env ''matlab.engine'' wa = (Inr (), wb)"
    and "py_import env ''numpy'' wb = (Inr (), wc)"
    and "py_import env ''utils.get_class_name_dict'' wc = (Inr (), wd)"
    and "start_matlab env wd = (Inr h, w1)"
    and "addpath env h ''/home/pans/source/DCASE2021/multiple-target-tracking-master'' w1
           = (Inr u, w2)"
    and "get_class_name_dict env = Inl e"
  shows "fst (exec_module env w) = Some (Raised e)
     \<and> trace (snd (exec_module env w)) = take 22 (module_order env h)
     \<and> world (snd (exec_module env w)) = w2"
  using assms by (simp add: run_defs module_order_def)

lemma exec_returns:
  assumes "py_import env ''os'' w = (Inr (), wa)"
    and "py_import env ''matlab.engine'' wa = (Inr (), wb)"
    and "py_import env ''numpy'' wb = (Inr (), wc)"
    and "py_import env ''utils.get_class_name_dict'' wc = (Inr (), wd)"
    and "start_matlab env wd = (Inr h, w1)"
    and "addpath env h ''/home/pans/source/DCASE2021/multiple-target-tracking-master'' w1
           = (Inr u, w2)"
    and "get_class_name_dict env = Inr d"
  shows "exec_module env w =
    (None, \<lparr>globals = loaded h (dirname env (abspath env (module_file env))) d,
      trace = module_order env h, world = w2\<rparr>)"
  using assms by (simp add: run_defs loaded_def module_order_def)

text \<open>One of the eight always applies.\<close>

lemma imports_cases:
  obtains
    (os_raises) e wa where "py_import env ''os'' w = (Inl e, wa)"
  | (engine_raises) wa e wb where
      "py_import env ''os'' w = (Inr (), wa)"
      "py_import env ''matlab.engine'' wa = (Inl e, wb)"
  | (numpy_raises) wa wb e wc where
      "py_import env ''os'' w = (Inr (), wa)"
      "py_import env ''matlab.engine'' wa = (Inr (), wb)"
      "py_import env ''numpy'' wb = (Inl e, wc)"
  | (utils_raises) wa wb wc e wd where
      "py_import env ''os'' w = (Inr (), wa)"
      "py_import env ''matlab.engine'' wa = (Inr (), wb)"
      "py_import env ''numpy'' wb = (Inr (), wc)"
      "py_import env ''utils.get_class_name_dict'' wc = (Inl e, wd)"
  | (imported) wa wb wc wd where
      "py_import env ''os'' w = (Inr (), wa)"
      "py_import env ''matlab.engine'' wa = (Inr (), wb)"
      "py_import env ''numpy'' wb = (Inr (), wc)"
      "py_import env ''utils.get_class_name_dict'' wc = (Inr (), wd)"
proof -
  obtain r1 wa where 1: "py_import env ''os'' w = (r1, wa)"
    by (cases "py_import env ''os'' w")
  obtain r2 wb where 2: "py_import env ''matlab.engine'' wa = (r2, wb)"
    by (cases "py_import env ''matlab.engine'' wa")
  obtain r3 wc where 3: "py_import env ''numpy'' wb = (r3, wc)"
    by (cases "py_import env ''numpy'' wb")
  obtain r4 wd where 4: "py_import env ''utils.get_class_name_dict'' wc = (r4, wd)"
    by (cases "py_import env ''utils.get_class_name_dict'' wc")
  show ?thesis
  proof (cases r1)
    case Inl
    with 1 os_raises show ?thesis by simp
  next
    case a: Inr
    show ?thesis
    proof (cases r2)
      case Inl
      with 1 2 a engine_raises show ?thesis by simp
    next
      case b: Inr
      show ?thesis
      proof (cases r3)
        case Inl
        with 1 2 3 a b numpy_raises show ?thesis by simp
      next
        case c: Inr
        show ?thesis
        proof (cases r4)
          case Inl
          with 1 2 3 4 a b c utils_raises show ?thesis by simp
        next
          case Inr
          with 1 2 3 4 a b c imported show ?thesis by simp
        qed
      qed
    qed
  qed
qed

lemma calls_cases:
  obtains
    (start_raises) e w1 where "start_matlab env wd = (Inl e, w1)"
  | (addpath_raises) h w1 e w2 where "start_matlab env wd = (Inr h, w1)"
      "addpath env h ''/home/pans/source/DCASE2021/multiple-target-tracking-master'' w1
         = (Inl e, w2)"
  | (collaborator_raises) h w1 u w2 e where "start_matlab env wd = (Inr h, w1)"
      "addpath env h ''/home/pans/source/DCASE2021/multiple-target-tracking-master'' w1
         = (Inr u, w2)"
      "get_class_name_dict env = Inl e"
  | (returns) h w1 u w2 d where "start_matlab env wd = (Inr h, w1)"
      "addpath env h ''/home/pans/source/DCASE2021/multiple-target-tracking-master'' w1
         = (Inr u, w2)"
      "get_class_name_dict env = Inr d"
proof (cases "start_matlab env wd")
  case (Pair r w1)
  show ?thesis
  proof (cases r)
    case (Inl e)
    with Pair show ?thesis using start_raises by simp
  next
    case (Inr h)
    note start = Pair [unfolded Inr]
    show ?thesis
    proof (cases "addpath env h ''/home/pans/source/DCASE2021/multiple-target-tracking-master'' w1")
      case (Pair r2 w2)
      show ?thesis
      proof (cases r2)
        case (Inl e)
        with Pair start show ?thesis using addpath_raises by simp
      next
        case (Inr u)
        note add = Pair [unfolded Inr]
        show ?thesis
        proof (cases "get_class_name_dict env")
          case (Inl e)
          with start add show ?thesis using collaborator_raises by simp
        next
          case (Inr d)
          with start add show ?thesis using returns by simp
        qed
      qed
    qed
  qed
qed

lemma load_cases:
  obtains
    (os_raises) e wa where "py_import env ''os'' w = (Inl e, wa)"
  | (engine_raises) wa e wb where
      "py_import env ''os'' w = (Inr (), wa)"
      "py_import env ''matlab.engine'' wa = (Inl e, wb)"
  | (numpy_raises) wa wb e wc where
      "py_import env ''os'' w = (Inr (), wa)"
      "py_import env ''matlab.engine'' wa = (Inr (), wb)"
      "py_import env ''numpy'' wb = (Inl e, wc)"
  | (utils_raises) wa wb wc e wd where
      "py_import env ''os'' w = (Inr (), wa)"
      "py_import env ''matlab.engine'' wa = (Inr (), wb)"
      "py_import env ''numpy'' wb = (Inr (), wc)"
      "py_import env ''utils.get_class_name_dict'' wc = (Inl e, wd)"
  | (start_raises) wa wb wc wd e w1 where
      "py_import env ''os'' w = (Inr (), wa)"
      "py_import env ''matlab.engine'' wa = (Inr (), wb)"
      "py_import env ''numpy'' wb = (Inr (), wc)"
      "py_import env ''utils.get_class_name_dict'' wc = (Inr (), wd)"
      "start_matlab env wd = (Inl e, w1)"
  | (addpath_raises) wa wb wc wd h w1 e w2 where
      "py_import env ''os'' w = (Inr (), wa)"
      "py_import env ''matlab.engine'' wa = (Inr (), wb)"
      "py_import env ''numpy'' wb = (Inr (), wc)"
      "py_import env ''utils.get_class_name_dict'' wc = (Inr (), wd)"
      "start_matlab env wd = (Inr h, w1)"
      "addpath env h ''/home/pans/source/DCASE2021/multiple-target-tracking-master'' w1
           = (Inl e, w2)"
  | (collaborator_raises) wa wb wc wd h w1 u w2 e where
      "py_import env ''os'' w = (Inr (), wa)"
      "py_import env ''matlab.engine'' wa = (Inr (), wb)"
      "py_import env ''numpy'' wb = (Inr (), wc)"
      "py_import env ''utils.get_class_name_dict'' wc = (Inr (), wd)"
      "start_matlab env wd = (Inr h, w1)"
      "addpath env h ''/home/pans/source/DCASE2021/multiple-target-tracking-master'' w1
           = (Inr u, w2)"
      "get_class_name_dict env = Inl e"
  | (returns) wa wb wc wd h w1 u w2 d where
      "py_import env ''os'' w = (Inr (), wa)"
      "py_import env ''matlab.engine'' wa = (Inr (), wb)"
      "py_import env ''numpy'' wb = (Inr (), wc)"
      "py_import env ''utils.get_class_name_dict'' wc = (Inr (), wd)"
      "start_matlab env wd = (Inr h, w1)"
      "addpath env h ''/home/pans/source/DCASE2021/multiple-target-tracking-master'' w1
           = (Inr u, w2)"
      "get_class_name_dict env = Inr d"
proof (cases rule: imports_cases [of env w])
  case (imported wa wb wc wd)
  note imp = this
  show ?thesis
  proof (cases rule: calls_cases [of env wd])
    case a: start_raises
    show ?thesis by (rule start_raises [OF imp a])
  next
    case a: addpath_raises
    show ?thesis by (rule addpath_raises [OF imp a])
  next
    case a: collaborator_raises
    show ?thesis by (rule collaborator_raises [OF imp a])
  next
    case a: returns
    show ?thesis by (rule returns [OF imp a])
  qed
qed (blast intro: os_raises engine_raises numpy_raises utils_raises)+

text \<open>What the importer gets in each of the eight.\<close>

lemma load_import_os_raises:
  "py_import env ''os'' w = (Inl e, wa) \<Longrightarrow> load env w = Inl (Raised e)"
  by (simp add: load_def exec_import_os_raises)

lemma load_import_engine_raises:
  assumes "py_import env ''os'' w = (Inr (), wa)"
    and "py_import env ''matlab.engine'' wa = (Inl e, wb)"
  shows "load env w = Inl (Raised e)"
  by (simp add: load_def exec_import_engine_raises [OF assms])

lemma load_import_numpy_raises:
  assumes "py_import env ''os'' w = (Inr (), wa)"
    and "py_import env ''matlab.engine'' wa = (Inr (), wb)"
    and "py_import env ''numpy'' wb = (Inl e, wc)"
  shows "load env w = Inl (Raised e)"
  by (simp add: load_def exec_import_numpy_raises [OF assms])

lemma load_import_utils_raises:
  assumes "py_import env ''os'' w = (Inr (), wa)"
    and "py_import env ''matlab.engine'' wa = (Inr (), wb)"
    and "py_import env ''numpy'' wb = (Inr (), wc)"
    and "py_import env ''utils.get_class_name_dict'' wc = (Inl e, wd)"
  shows "load env w = Inl (Raised e)"
  by (simp add: load_def exec_import_utils_raises [OF assms])

lemma load_start_raises:
  assumes "py_import env ''os'' w = (Inr (), wa)"
    and "py_import env ''matlab.engine'' wa = (Inr (), wb)"
    and "py_import env ''numpy'' wb = (Inr (), wc)"
    and "py_import env ''utils.get_class_name_dict'' wc = (Inr (), wd)"
    and "start_matlab env wd = (Inl e, w1)"
  shows "load env w = Inl (Raised e)"
  by (simp add: load_def exec_start_raises [OF assms])

lemma load_addpath_raises:
  assumes "py_import env ''os'' w = (Inr (), wa)"
    and "py_import env ''matlab.engine'' wa = (Inr (), wb)"
    and "py_import env ''numpy'' wb = (Inr (), wc)"
    and "py_import env ''utils.get_class_name_dict'' wc = (Inr (), wd)"
    and "start_matlab env wd = (Inr h, w1)"
    and "addpath env h ''/home/pans/source/DCASE2021/multiple-target-tracking-master'' w1
           = (Inl e, w2)"
  shows "load env w = Inl (Raised e)"
  by (simp add: load_def exec_addpath_raises [OF assms])

lemma load_collaborator_raises:
  assumes "py_import env ''os'' w = (Inr (), wa)"
    and "py_import env ''matlab.engine'' wa = (Inr (), wb)"
    and "py_import env ''numpy'' wb = (Inr (), wc)"
    and "py_import env ''utils.get_class_name_dict'' wc = (Inr (), wd)"
    and "start_matlab env wd = (Inr h, w1)"
    and "addpath env h ''/home/pans/source/DCASE2021/multiple-target-tracking-master'' w1
           = (Inr u, w2)"
    and "get_class_name_dict env = Inl e"
  shows "load env w = Inl (Raised e)"
  using exec_collaborator_raises [OF assms]
  by (cases "exec_module env w") (simp add: load_def)

lemma load_returns:
  assumes "py_import env ''os'' w = (Inr (), wa)"
    and "py_import env ''matlab.engine'' wa = (Inr (), wb)"
    and "py_import env ''numpy'' wb = (Inr (), wc)"
    and "py_import env ''utils.get_class_name_dict'' wc = (Inr (), wd)"
    and "start_matlab env wd = (Inr h, w1)"
    and "addpath env h ''/home/pans/source/DCASE2021/multiple-target-tracking-master'' w1
           = (Inr u, w2)"
    and "get_class_name_dict env = Inr d"
  shows "load env w = Inr (loaded h (dirname env (abspath env (module_file env))) d)"
  by (simp add: load_def exec_returns [OF assms])

text \<open>
  Whatever happens, the imports, bindings and calls made are an initial part of
  \<open>module_order\<close>.
\<close>

lemma events_initial_part: "\<exists>h k. events env w = take k (module_order env h)"
proof (cases rule: load_cases [of env w])
  case os_raises
  have "events env w = take 1 (module_order env h)" for h
    by (simp add: events_def exec_import_os_raises [OF os_raises] module_order_def)
  then show ?thesis by blast
next
  case engine_raises
  have "events env w = take 2 (module_order env h)" for h
    by (simp add: events_def exec_import_engine_raises [OF engine_raises] module_order_def)
  then show ?thesis by blast
next
  case numpy_raises
  have "events env w = take 3 (module_order env h)" for h
    by (simp add: events_def exec_import_numpy_raises [OF numpy_raises] module_order_def)
  then show ?thesis by blast
next
  case utils_raises
  have "events env w = take 4 (module_order env h)" for h
    by (simp add: events_def exec_import_utils_raises [OF utils_raises] module_order_def)
  then show ?thesis by blast
next
  case start_raises
  have "events env w = take 9 (module_order env h)" for h
    by (simp add: events_def exec_start_raises [OF start_raises] module_order_def)
  then show ?thesis by blast
next
  case (addpath_raises wa wb wc wd h w1 e w2)
  have "events env w = take 14 (module_order env h)"
    by (simp add: events_def exec_addpath_raises [OF addpath_raises])
  then show ?thesis by blast
next
  case (collaborator_raises wa wb wc wd h w1 u w2 e)
  have "events env w = take 22 (module_order env h)"
    using exec_collaborator_raises [OF collaborator_raises] by (simp add: events_def)
  then show ?thesis by blast
next
  case (returns wa wb wc wd h w1 u w2 d)
  have "events env w = take 23 (module_order env h)"
    by (simp add: events_def exec_returns [OF returns] module_order_def)
  then show ?thesis by blast
qed

text \<open>A load that succeeds: every import and call returned, in turn.\<close>

lemma load_InrD:
  assumes "load env w = Inr g"
  obtains wa wb wc wd h w1 u w2 d where
      "py_import env ''os'' w = (Inr (), wa)"
      "py_import env ''matlab.engine'' wa = (Inr (), wb)"
      "py_import env ''numpy'' wb = (Inr (), wc)"
      "py_import env ''utils.get_class_name_dict'' wc = (Inr (), wd)"
      "start_matlab env wd = (Inr h, w1)"
      "addpath env h ''/home/pans/source/DCASE2021/multiple-target-tracking-master'' w1
           = (Inr u, w2)"
      "get_class_name_dict env = Inr d"
      "g = loaded h (dirname env (abspath env (module_file env))) d"
      "events env w = module_order env h"
      "world_after env w = w2"
proof (cases rule: load_cases [of env w])
  case os_raises
  with assms show ?thesis by (simp add: load_import_os_raises)
next
  case engine_raises
  with assms show ?thesis by (simp add: load_import_engine_raises)
next
  case numpy_raises
  with assms show ?thesis by (simp add: load_import_numpy_raises)
next
  case utils_raises
  with assms show ?thesis by (simp add: load_import_utils_raises)
next
  case start_raises
  with assms show ?thesis by (simp add: load_start_raises)
next
  case addpath_raises
  with assms show ?thesis by (simp add: load_addpath_raises)
next
  case collaborator_raises
  with assms show ?thesis by (simp add: load_collaborator_raises)
next
  case (returns wa wb wc wd h w1 u w2 d)
  with assms that [OF returns] show ?thesis
    by (simp add: load_returns events_def world_after_def exec_returns)
qed

text \<open>The example environments, run.\<close>

lemma example_dir:
  "example_dirname ''/home/pans/source/DCASE2021/config.py'' = ''/home/pans/source/DCASE2021''"
  by (simp add: example_dirname_def)

lemma load_example:
  "load example_env w = Inr (loaded w ''/home/pans/source/DCASE2021'' example_names)"
  using load_returns [of example_env w w w w w w "Suc w" "()" "Suc w" example_names]
  by (simp add: example_env_def example_dir)

lemma world_after_example: "world_after example_env w = Suc w"
  using exec_returns [of example_env w w w w w w "Suc w" "()" "Suc w" example_names]
  by (simp add: world_after_def example_env_def)

lemma load_ten_names:
  "load env_ten_names w = Inr (loaded w ''/home/pans/source/DCASE2021'' ten_names)"
  using load_returns [of env_ten_names w w w w w w "Suc w" "()" "Suc w" ten_names]
  by (simp add: env_ten_names_def example_env_def example_dir)

lemma load_addpath_marks:
  "load env_addpath_marks w = Inr (loaded w ''/home/pans/source/DCASE2021'' example_names)"
  using load_returns [of env_addpath_marks w w w w w w "Suc w" "()" "Suc w + 100" example_names]
  by (simp add: env_addpath_marks_def example_env_def example_dir)

lemma load_engine_down: "load env_engine_down w = Inl (Raised ''EngineError'')"
  using load_start_raises [of env_engine_down w w w w w "''EngineError''" w]
  by (simp add: env_engine_down_def example_env_def)

lemma load_addpath_raises_example:
  "load env_addpath_raises w = Inl (Raised ''MatlabExecutionError'')"
  using load_addpath_raises
    [of env_addpath_raises w w w w w w "Suc w" "''MatlabExecutionError''" "Suc w"]
  by (simp add: env_addpath_raises_def example_env_def)

lemma load_no_matlab: "load env_no_matlab w = Inl (Raised ''ModuleNotFoundError'')"
  using load_import_engine_raises [of env_no_matlab w w "''ModuleNotFoundError''" w]
  by (simp add: env_no_matlab_def example_env_def)
section \<open>The claims\<close>

text \<open>
  Claim C1: \<open>undefined_classID\<close> is \<open>num_classes - 1\<close>. The assignment on line 30
  computes it from whatever integer \<open>num_classes\<close> is bound to, positive or not, and
  leaves \<open>num_classes\<close> as it was; in a loaded module \<open>num_classes\<close> is 13 and
  \<open>undefined_classID\<close> is 12.
\<close>

theorem undefined_classID_is_last_index:
  fixes env :: "('h, 'd, 'e, 'w) env" and s :: "('h, 'd, 'w) state"
  shows
  "(num_classes (globals s) = Some n \<longrightarrow>
      (case stmt_undefined_classID s of
         (x :: 'e exn option, s') \<Rightarrow>
           x = None \<and> num_classes (globals s') = Some n \<and>
           undefined_classID (globals s') = Some (n - 1)))
   \<and> (load env w = Inr g \<longrightarrow>
      (\<exists>k. num_classes g = Some k \<and> undefined_classID g = Some (k - 1)) \<and>
      num_classes g = Some 13 \<and> undefined_classID g = Some 12)"
proof (intro conjI impI)
  assume "load env w = Inr g"
  then obtain h d where g: "g = loaded h (dirname env (abspath env (module_file env))) d"
    by (rule load_InrD)
  show "\<exists>k. num_classes g = Some k \<and> undefined_classID g = Some (k - 1)"
    "num_classes g = Some 13" "undefined_classID g = Some 12"
    by (simp_all add: g loaded_def)
qed (simp add: stmt_undefined_classID_def assign_def emit_def name_def)

theorem undefined_classID_is_last_index_witness:
  "num_classes (globals (state_with_num_classes 5)) = Some 5 \<and>
   (case (stmt_undefined_classID :: (nat, int \<rightharpoonup> string, string, nat) stmt)
           (state_with_num_classes 5) of
      (x, s') \<Rightarrow> x = None \<and> num_classes (globals s') = Some 5 \<and>
                 undefined_classID (globals s') = Some 4) \<and>
   load example_env 0 = Inr (loaded 0 ''/home/pans/source/DCASE2021'' example_names) \<and>
   undefined_classID (loaded (0::nat) ''/home/pans/source/DCASE2021'' example_names) = Some 12"
proof -
  have n: "num_classes (globals (state_with_num_classes 5)) = Some 5"
    by (simp add: state_with_num_classes_def)
  have l: "load example_env 0 = Inr (loaded 0 ''/home/pans/source/DCASE2021'' example_names)"
    by (rule load_example)
  from undefined_classID_is_last_index
    [of "state_with_num_classes 5" 5 example_env 0
        "loaded 0 ''/home/pans/source/DCASE2021'' example_names"] n l
  show ?thesis by simp
qed

text \<open>
  Claim C2 says that a mapping without all thirteen indices makes the load fail. The
  body never looks into the mapping: with a collaborator that returns the ten names
  \<open>0 .. 9\<close> the load returns, \<open>num_classes\<close> is 13 and \<open>class_name_dict\<close> is that
  ten-entry mapping, with no entry for 10, 11 or 12.
\<close>

theorem ten_names_load_succeeds:
  "load env_ten_names 0 = Inr (loaded 0 ''/home/pans/source/DCASE2021'' ten_names) \<and>
   num_classes (loaded (0::nat) ''/home/pans/source/DCASE2021'' ten_names) = Some 13 \<and>
   class_name_dict (loaded (0::nat) ''/home/pans/source/DCASE2021'' ten_names) = Some ten_names \<and>
   card (dom ten_names) = 10 \<and> ten_names 10 = None \<and> ten_names 11 = None \<and>
   ten_names 12 = None"
  by (simp add: load_ten_names) (simp add: loaded_def ten_names_def)

text \<open>
  Claim C2, amended: whether a load succeeds does not depend on the mapping the
  collaborator returns. If a load succeeds, then with any other value \<open>d'\<close> returned in
  its place (fewer entries, missing indices) the load succeeds as well, and the loaded
  module differs only in \<open>class_name_dict\<close>, which is \<open>d'\<close>.
\<close>

theorem load_does_not_inspect_mapping:
  assumes "load env w = Inr g"
  shows "load (env\<lparr>get_class_name_dict := Inr d'\<rparr>) w = Inr (g\<lparr>class_name_dict := Some d'\<rparr>)"
proof -
  from assms obtain wa wb wc wd h w1 u w2 d where
    i: "py_import env ''os'' w = (Inr (), wa)"
       "py_import env ''matlab.engine'' wa = (Inr (), wb)"
       "py_import env ''numpy'' wb = (Inr (), wc)"
       "py_import env ''utils.get_class_name_dict'' wc = (Inr (), wd)" and
    s: "start_matlab env wd = (Inr h, w1)" and
    a: "addpath env h ''/home/pans/source/DCASE2021/multiple-target-tracking-master'' w1
          = (Inr u, w2)" and
    g: "g = loaded h (dirname env (abspath env (module_file env))) d"
    by (rule load_InrD)
  let ?env = "env\<lparr>get_class_name_dict := Inr d'\<rparr>"
  have "load ?env w = Inr (loaded h (dirname ?env (abspath ?env (module_file ?env))) d')"
    by (rule load_returns
          [where wa = wa and wb = wb and wc = wc and wd = wd
             and ?w1.0 = w1 and u = u and ?w2.0 = w2])
       (simp_all add: i s a)
  then show ?thesis by (simp add: g loaded_def)
qed

theorem load_does_not_inspect_mapping_witness:
  "load example_env 0 = Inr (loaded 0 ''/home/pans/source/DCASE2021'' example_names) \<and>
   load (example_env\<lparr>get_class_name_dict := Inr ten_names\<rparr>) 0 =
     Inr ((loaded 0 ''/home/pans/source/DCASE2021'' example_names)
            \<lparr>class_name_dict := Some ten_names\<rparr>)"
  using load_does_not_inspect_mapping [OF load_example, where d' = ten_names]
    load_example [of 0]
  by simp

text \<open>
  Claim C3: when the four imports have returned and \<open>engine.start_matlab()\<close> raises, the
  load ends with that exception and the importer gets no module: none of the paths,
  constants or label names can be read. The run stopped at the call: nothing after it
  was executed, \<open>eng\<close> was not bound.
\<close>

theorem engine_start_failure_loads_nothing:
  assumes "py_import env ''os'' w = (Inr (), wa)"
    and "py_import env ''matlab.engine'' wa = (Inr (), wb)"
    and "py_import env ''numpy'' wb = (Inr (), wc)"
    and "py_import env ''utils.get_class_name_dict'' wc = (Inr (), wd)"
    and "start_matlab env wd = (Inl e, w1)"
  shows "load env w = Inl (Raised e) \<and>
         events env w =
           [Import ''os'', Import ''matlab.engine'', Import ''numpy'',
            Import ''utils.get_class_name_dict'',
            Assign ''data_folder_path'', Assign ''stft_folder_path'',
            Assign ''csv_file_path'', Assign ''matlab_path'', Call_start_matlab]"
  by (simp add: load_def events_def exec_start_raises [OF assms])

theorem engine_start_failure_loads_nothing_witness:
  "py_import env_engine_down ''os'' 0 = (Inr (), 0) \<and>
   py_import env_engine_down ''matlab.engine'' 0 = (Inr (), 0) \<and>
   py_import env_engine_down ''numpy'' 0 = (Inr (), 0) \<and>
   py_import env_engine_down ''utils.get_class_name_dict'' 0 = (Inr (), 0) \<and>
   start_matlab env_engine_down 0 = (Inl ''EngineError'', 0) \<and>
   load env_engine_down 0 = Inl (Raised ''EngineError'') \<and>
   events env_engine_down 0 =
     [Import ''os'', Import ''matlab.engine'', Import ''numpy'',
      Import ''utils.get_class_name_dict'',
      Assign ''data_folder_path'', Assign ''stft_folder_path'',
      Assign ''csv_file_path'', Assign ''matlab_path'', Call_start_matlab]"
proof -
  have i: "py_import env_engine_down m 0 = (Inr (), 0)" for m
    by (simp add: env_engine_down_def example_env_def)
  have s: "start_matlab env_engine_down 0 = (Inl ''EngineError'', 0)"
    by (simp add: env_engine_down_def example_env_def)
  from engine_start_failure_loads_nothing [OF i i i i s] i s show ?thesis by simp
qed

text \<open>
  Claim C4: two loads that both succeed, from any two states of the world (the second
  may be the world the first load left, with its session still running), give the same
  paths, signal constants, \<open>num_classes\<close>, \<open>undefined_classID\<close> and \<open>class_name_dict\<close>.
  Only the engine handle may differ. The equality of \<open>class_name_dict\<close> rests on the
  collaborator returning the same mapping on every call.
\<close>

theorem load_twice_same_observables:
  assumes "load env w = Inr g1" and "load env w' = Inr g2"
  shows "observable g1 = observable g2"
proof -
  from assms(1) obtain h1 d1 where
    d1: "get_class_name_dict env = Inr d1" and
    g1: "g1 = loaded h1 (dirname env (abspath env (module_file env))) d1"
    by (rule load_InrD)
  from assms(2) obtain h2 d2 where
    d2: "get_class_name_dict env = Inr d2" and
    g2: "g2 = loaded h2 (dirname env (abspath env (module_file env))) d2"
    by (rule load_InrD)
  from d1 d2 have "d1 = d2" by simp
  then show ?thesis by (simp add: g1 g2 observable_def loaded_def)
qed

theorem load_twice_same_observables_witness:
  "load example_env 0 = Inr (loaded 0 ''/home/pans/source/DCASE2021'' example_names) \<and>
   load example_env (world_after example_env 0)
     = Inr (loaded 1 ''/home/pans/source/DCASE2021'' example_names) \<and>
   eng (loaded (0::nat) ''/home/pans/source/DCASE2021'' example_names) = Some 0 \<and>
   eng (loaded (1::nat) ''/home/pans/source/DCASE2021'' example_names) = Some 1 \<and>
   observable (loaded (0::nat) ''/home/pans/source/DCASE2021'' example_names)
     = observable (loaded (1::nat) ''/home/pans/source/DCASE2021'' example_names)"
proof -
  have a: "load example_env 0 = Inr (loaded 0 ''/home/pans/source/DCASE2021'' example_names)"
    by (rule load_example)
  have b: "load example_env (world_after example_env 0)
             = Inr (loaded 1 ''/home/pans/source/DCASE2021'' example_names)"
    by (simp add: world_after_example load_example)
  from load_twice_same_observables [OF a b] a b show ?thesis
    by (simp add: loaded_def)
qed

text \<open>
  Claim C5 says that every load performs all six steps. A load ends at the first import
  or call that raises: with the engine down the load stops at the session start, so the
  module directory, \<open>addpath\<close>, the constants and the collaborator are never reached;
  without the MATLAB engine package it stops at the second import and not even the
  paths are assigned.
\<close>

theorem failing_load_stops_early:
  "load env_engine_down 0 = Inl (Raised ''EngineError'') \<and>
   events env_engine_down 0 =
     [Import ''os'', Import ''matlab.engine'', Import ''numpy'',
      Import ''utils.get_class_name_dict'',
      Assign ''data_folder_path'', Assign ''stft_folder_path'',
      Assign ''csv_file_path'', Assign ''matlab_path'', Call_start_matlab] \<and>
   load env_no_matlab 0 = Inl (Raised ''ModuleNotFoundError'') \<and>
   events env_no_matlab 0 = [Import ''os'', Import ''matlab.engine''] \<and>
   count_list (events env_no_matlab 0) Call_start_matlab = 0"
proof -
  have "exec_module env_engine_down 0 =
    (Some (Raised ''EngineError''),
     \<lparr>globals = paths_bound,
      trace = [Import ''os'', Import ''matlab.engine'', Import ''numpy'',
               Import ''utils.get_class_name_dict'',
               Assign ''data_folder_path'', Assign ''stft_folder_path'',
               Assign ''csv_file_path'', Assign ''matlab_path'', Call_start_matlab],
      world = 0\<rparr>)"
    by (rule exec_start_raises [where wa = 0 and wb = 0 and wc = 0 and wd = 0])
       (simp_all add: env_engine_down_def example_env_def)
  moreover have "exec_module env_no_matlab 0 =
    (Some (Raised ''ModuleNotFoundError''),
     \<lparr>globals = empty_namespace, trace = [Import ''os'', Import ''matlab.engine''],
      world = 0\<rparr>)"
    by (rule exec_import_engine_raises [where wa = 0])
       (simp_all add: env_no_matlab_def example_env_def)
  ultimately show ?thesis
    by (simp add: events_def load_engine_down load_no_matlab)
qed

text \<open>
  Claim C5, amended: the steps of a load come in the order of \<open>module_order\<close>: the four
  imports, the four path assignments, the engine start, the module's absolute
  directory, \<open>addpath\<close> of \<open>matlab_path\<close>, the signal constants (then \<open>num_classes\<close> and
  \<open>undefined_classID\<close>), the call of \<open>get_class_name_dict\<close>. Every load performs an
  initial part of this sequence and starts at most one session. A load that succeeds
  has performed all of it and started exactly one session: every import returned, the
  session \<open>h\<close> was started in the world the imports left, \<open>addpath\<close> was applied to
  \<open>h\<close> and the \<open>matlab_path\<close> literal in the world the start left, and returned; the
  collaborator returned; the loaded names hold \<open>h\<close>, the module directory and the
  returned mapping; and the world after the load is the one \<open>addpath\<close> left.
\<close>

theorem load_runs_steps_in_order:
  "(\<exists>h. prefix (events env w) (module_order env h)) \<and>
   count_list (events env w) Call_start_matlab \<le> 1 \<and>
   (load env w = Inr g \<longrightarrow>
      (\<exists>wa wb wc wd h w1 u w2 d.
         py_import env ''os'' w = (Inr (), wa) \<and>
         py_import env ''matlab.engine'' wa = (Inr (), wb) \<and>
         py_import env ''numpy'' wb = (Inr (), wc) \<and>
         py_import env ''utils.get_class_name_dict'' wc = (Inr (), wd) \<and>
         start_matlab env wd = (Inr h, w1) \<and>
         addpath env h ''/home/pans/source/DCASE2021/multiple-target-tracking-master'' w1
           = (Inr u, w2) \<and>
         get_class_name_dict env = Inr d \<and>
         g = loaded h (dirname env (abspath env (module_file env))) d \<and>
         events env w = module_order env h \<and>
         count_list (events env w) Call_start_matlab = 1 \<and>
         world_after env w = w2))"
proof (intro conjI impI)
  from events_initial_part [of env w]
  obtain h k where ev: "events env w = take k (module_order env h)" by blast
  show "\<exists>h. prefix (events env w) (module_order env h)"
    unfolding ev by (metis take_is_prefix)
  have "count_list (events env w) Call_start_matlab
          \<le> count_list (module_order env h) Call_start_matlab"
    unfolding ev by (rule count_list_take_le)
  then show "count_list (events env w) Call_start_matlab \<le> 1"
    by (simp add: module_order_def)
next
  assume "load env w = Inr g"
  then obtain wa wb wc wd h w1 u w2 d where
    "py_import env ''os'' w = (Inr (), wa)"
    "py_import env ''matlab.engine'' wa = (Inr (), wb)"
    "py_import env ''numpy'' wb = (Inr (), wc)"
    "py_import env ''utils.get_class_name_dict'' wc = (Inr (), wd)"
    "start_matlab env wd = (Inr h, w1)"
    "addpath env h ''/home/pans/source/DCASE2021/multiple-target-tracking-master'' w1
       = (Inr u, w2)"
    "get_class_name_dict env = Inr d"
    "g = loaded h (dirname env (abspath env (module_file env))) d"
    "events env w = module_order env h"
    "world_after env w = w2"
    by (rule load_InrD)
  moreover from this have "count_list (events env w) Call_start_matlab = 1"
    by (simp add: module_order_def)
  ultimately show "\<exists>wa wb wc wd h w1 u w2 d.
         py_import env ''os'' w = (Inr (), wa) \<and>
         py_import env ''matlab.engine'' wa = (Inr (), wb) \<and>
         py_import env ''numpy'' wb = (Inr (), wc) \<and>
         py_import env ''utils.get_class_name_dict'' wc = (Inr (), wd) \<and>
         start_matlab env wd = (Inr h, w1) \<and>
         addpath env h ''/home/pans/source/DCASE2021/multiple-target-tracking-master'' w1
           = (Inr u, w2) \<and>
         get_class_name_dict env = Inr d \<and>
         g = loaded h (dirname env (abspath env (module_file env))) d \<and>
         events env w = module_order env h \<and>
         count_list (events env w) Call_start_matlab = 1 \<and>
         world_after env w = w2"
    by blast
qed

theorem load_runs_steps_in_order_witness:
  "load env_addpath_marks 0 = Inr (loaded 0 ''/home/pans/source/DCASE2021'' example_names) \<and>
   start_matlab env_addpath_marks 0 = (Inr 0, 1) \<and>
   addpath env_addpath_marks 0
     ''/home/pans/source/DCASE2021/multiple-target-tracking-master'' 1 = (Inr (), 101) \<and>
   events env_addpath_marks 0 = module_order env_addpath_marks 0 \<and>
   count_list (events env_addpath_marks 0) Call_start_matlab = 1 \<and>
   world_after env_addpath_marks 0 = 101"
proof -
  have l: "load env_addpath_marks 0
             = Inr (loaded 0 ''/home/pans/source/DCASE2021'' example_names)"
    by (rule load_addpath_marks)
  have e: "py_import env_addpath_marks m x = (Inr (), x)"
    "start_matlab env_addpath_marks x = (Inr x, Suc x)"
    "addpath env_addpath_marks y p x = (Inr (), x + 100)" for m x y p
    by (simp_all add: env_addpath_marks_def example_env_def)
  from load_runs_steps_in_order
    [of env_addpath_marks 0 "loaded 0 ''/home/pans/source/DCASE2021'' example_names"] l
  show ?thesis by (auto simp: e)
qed

text \<open>
  Claim C6 says that a load raises exactly when the engine start or the collaborator
  raises. Other steps can raise as well: the imports of lines 5 to 8 and the call
  \<open>eng.addpath(matlab_path)\<close>. Here every import returns, the session starts, the
  collaborator would return its mapping, and the load still ends with the exception of
  \<open>addpath\<close>.
\<close>

theorem addpath_failure_raises:
  "start_matlab env_addpath_raises 0 = (Inr 0, 1) \<and>
   get_class_name_dict env_addpath_raises = Inr example_names \<and>
   load env_addpath_raises 0 = Inl (Raised ''MatlabExecutionError'')"
  by (simp add: load_addpath_raises_example) (simp add: env_addpath_raises_def example_env_def)

text \<open>
  Claim C6, amended: a load raises \<open>x\<close> exactly when \<open>x\<close> is the exception of the first
  import or external call that raises, in the order of the source: the four imports,
  the engine start, \<open>addpath\<close> on the started session, the collaborator. It is handed on
  as raised, nothing is caught or retried, and when none of the seven raises the load
  returns.
\<close>

theorem load_raises_iff:
  "(load env w = Inl x) =
     (case py_import env ''os'' w of
        (Inl e, wa) \<Rightarrow> x = Raised e
      | (Inr i, wa) \<Rightarrow>
     (case py_import env ''matlab.engine'' wa of
        (Inl e, wb) \<Rightarrow> x = Raised e
      | (Inr i, wb) \<Rightarrow>
     (case py_import env ''numpy'' wb of
        (Inl e, wc) \<Rightarrow> x = Raised e
      | (Inr i, wc) \<Rightarrow>
     (case py_import env ''utils.get_class_name_dict'' wc of
        (Inl e, wd) \<Rightarrow> x = Raised e
      | (Inr i, wd) \<Rightarrow>
     (case start_matlab env wd of
        (Inl e, w1) \<Rightarrow> x = Raised e
      | (Inr h, w1) \<Rightarrow>
     (case addpath env h ''/home/pans/source/DCASE2021/multiple-target-tracking-master'' w1 of
        (Inl e, w2) \<Rightarrow> x = Raised e
      | (Inr u, w2) \<Rightarrow>
     (case get_class_name_dict env of
        Inl e \<Rightarrow> x = Raised e
      | Inr d \<Rightarrow> False)))))))"
proof (cases rule: load_cases [of env w])
  case os_raises
  then show ?thesis by (auto simp: load_import_os_raises)
next
  case engine_raises
  then show ?thesis by (auto simp: load_import_engine_raises)
next
  case numpy_raises
  then show ?thesis by (auto simp: load_import_numpy_raises)
next
  case utils_raises
  then show ?thesis by (auto simp: load_import_utils_raises)
next
  case start_raises
  then show ?thesis by (auto simp: load_start_raises)
next
  case addpath_raises
  then show ?thesis by (auto simp: load_addpath_raises)
next
  case collaborator_raises
  then show ?thesis by (auto simp: load_collaborator_raises)
next
  case returns
  then show ?thesis by (auto simp: load_returns)
qed

theorem load_raises_iff_witness:
  "load env_no_matlab 0 = Inl (Raised ''ModuleNotFoundError'') \<and>
   load env_addpath_raises 0 = Inl (Raised ''MatlabExecutionError'') \<and>
   load env_engine_down 0 = Inl (Raised ''EngineError'') \<and>
   load example_env 0 \<noteq> Inl (Raised ''EngineError'')"
  using load_raises_iff [of env_no_matlab 0 "Raised ''ModuleNotFoundError''"]
    load_raises_iff [of env_addpath_raises 0 "Raised ''MatlabExecutionError''"]
    load_raises_iff [of env_engine_down 0 "Raised ''EngineError''"]
    load_raises_iff [of example_env 0 "Raised ''EngineError''"]
  by (simp add: env_no_matlab_def env_addpath_raises_def env_engine_down_def example_env_def)

text \<open>
  Claim C7: in a loaded module \<open>window_overlap < window_size\<close> and
  \<open>nfft >= window_size\<close>.
\<close>

theorem window_overlap_below_window_size:
  assumes "load env w = Inr g"
  shows "\<exists>ov ws n. window_overlap g = Some ov \<and> window_size g = Some ws \<and> nfft g = Some n \<and>
           ov < ws \<and> n \<ge> ws"
proof -
  from assms obtain h d where "g = loaded h (dirname env (abspath env (module_file env))) d"
    by (rule load_InrD)
  then show ?thesis by (simp add: loaded_def)
qed

theorem window_overlap_below_window_size_witness:
  "load example_env 0 = Inr (loaded 0 ''/home/pans/source/DCASE2021'' example_names) \<and>
   (\<exists>ov ws n.
      window_overlap (loaded (0::nat) ''/home/pans/source/DCASE2021'' example_names) = Some ov \<and>
      window_size (loaded (0::nat) ''/home/pans/source/DCASE2021'' example_names) = Some ws \<and>
      nfft (loaded (0::nat) ''/home/pans/source/DCASE2021'' example_names) = Some n \<and>
      ov < ws \<and> n \<ge> ws)"
  using window_overlap_below_window_size [OF load_example [of 0]] load_example [of 0]
  by simp

text \<open>
  Claim C8: in a loaded module \<open>fs\<close> is 24000, \<open>window_size\<close> 2400, \<open>window_overlap\<close>
  1200, \<open>nfft\<close> 2400, and \<open>frame_length\<close> is the double that the literal \<open>0.1\<close> denotes.
\<close>

theorem signal_constants_are_the_literals:
  assumes "load env w = Inr g"
  shows "fs g = Some 24000 \<and> window_size g = Some 2400 \<and> window_overlap g = Some 1200 \<and>
         nfft g = Some 2400 \<and> frame_length g = Some double_0_1"
proof -
  from assms obtain h d where "g = loaded h (dirname env (abspath env (module_file env))) d"
    by (rule load_InrD)
  then show ?thesis by (simp add: loaded_def)
qed

theorem signal_constants_are_the_literals_witness:
  "load example_env 0 = Inr (loaded 0 ''/home/pans/source/DCASE2021'' example_names) \<and>
   fs (loaded (0::nat) ''/home/pans/source/DCASE2021'' example_names) = Some 24000 \<and>
   frame_length (loaded (0::nat) ''/home/pans/source/DCASE2021'' example_names)
     = Some double_0_1"
  using signal_constants_are_the_literals [OF load_example [of 0]] load_example [of 0]
  by simp

text \<open>
  Claim C9: no load calls \<open>get_class_name_dict\<close> more than once; a load that succeeds
  has called it exactly once, and \<open>class_name_dict\<close> is the value it returned, as
  returned. The value's type is a parameter of the model: the body cannot look into it.
\<close>

theorem class_name_dict_stored_as_returned:
  "count_list (events env w) Call_get_class_name_dict \<le> 1 \<and>
   (load env w = Inr g \<longrightarrow>
      count_list (events env w) Call_get_class_name_dict = 1 \<and>
      (\<exists>d. get_class_name_dict env = Inr d \<and> class_name_dict g = Some d))"
proof (intro conjI impI)
  from events_initial_part [of env w]
  obtain h k where ev: "events env w = take k (module_order env h)" by blast
  have "count_list (events env w) Call_get_class_name_dict
          \<le> count_list (module_order env h) Call_get_class_name_dict"
    unfolding ev by (rule count_list_take_le)
  then show "count_list (events env w) Call_get_class_name_dict \<le> 1"
    by (simp add: module_order_def)
next
  assume "load env w = Inr g"
  then obtain h d where g: "g = loaded h (dirname env (abspath env (module_file env))) d"
    and d: "get_class_name_dict env = Inr d"
    and ev: "events env w = module_order env h"
    by (rule load_InrD)
  show "count_list (events env w) Call_get_class_name_dict = 1"
    by (simp add: ev module_order_def)
  show "\<exists>d. get_class_name_dict env = Inr d \<and> class_name_dict g = Some d"
    by (simp add: g d loaded_def)
qed

theorem class_name_dict_stored_as_returned_witness:
  "load env_ten_names 0 = Inr (loaded 0 ''/home/pans/source/DCASE2021'' ten_names) \<and>
   count_list (events env_ten_names 0) Call_get_class_name_dict = 1 \<and>
   get_class_name_dict env_ten_names = Inr ten_names \<and>
   class_name_dict (loaded (0::nat) ''/home/pans/source/DCASE2021'' ten_names) = Some ten_names"
proof -
  have l: "load env_ten_names 0 = Inr (loaded 0 ''/home/pans/source/DCASE2021'' ten_names)"
    by (rule load_ten_names)
  from class_name_dict_stored_as_returned
    [of env_ten_names 0 "loaded 0 ''/home/pans/source/DCASE2021'' ten_names"] l
  show ?thesis by (auto simp: loaded_def)
qed

text \<open>
  Claim C10: in a loaded module \<open>nfft\<close> equals \<open>window_size\<close> and twice
  \<open>window_overlap\<close> is \<open>window_size\<close>.
\<close>

theorem nfft_equals_window_size_half_overlap:
  assumes "load env w = Inr g"
  shows "\<exists>ov ws n. window_overlap g = Some ov \<and> window_size g = Some ws \<and> nfft g = Some n \<and>
           n = ws \<and> ov * 2 = ws"
proof -
  from assms obtain h d where "g = loaded h (dirname env (abspath env (module_file env))) d"
    by (rule load_InrD)
  then show ?thesis by (simp add: loaded_def)
qed

theorem nfft_equals_window_size_half_overlap_witness:
  "load example_env 0 = Inr (loaded 0 ''/home/pans/source/DCASE2021'' example_names) \<and>
   nfft (loaded (0::nat) ''/home/pans/source/DCASE2021'' example_names)
     = window_size (loaded (0::nat) ''/home/pans/source/DCASE2021'' example_names) \<and>
   (\<exists>ov ws.
      window_overlap (loaded (0::nat) ''/home/pans/source/DCASE2021'' example_names) = Some ov \<and>
      window_size (loaded (0::nat) ''/home/pans/source/DCASE2021'' example_names) = Some ws \<and>
      ov * 2 = ws)"
  using nfft_equals_window_size_half_overlap [OF load_example [of 0]] load_example [of 0]
  by auto

end
